theory Spec2Isabelle
  imports Complex_Main
begin

section \<open>JavaScript values used by the license manager\<close>

text \<open>
  Instants are JavaScript time values: integer milliseconds since the epoch
  (\<^verbatim>\<open>Date.prototype.getTime\<close>).  Where the code computes with the value of a
  Postgres \<^verbatim>\<open>DATE\<close> column, the value is represented by its day number (days
  since 1970-01-01): \<^verbatim>\<open>new Date('YYYY-MM-DD').getTime()\<close> is UTC midnight of that
  day, and the date part of \<^verbatim>\<open>toISOString()\<close> of an instant names the day the instant
  falls in.  Strings are lists of code units in the Latin-1 range.
\<close>

datatype number = NaN | PosInf | NegInf | Num rat

definition isNaN :: "number \<Rightarrow> bool" where
  "isNaN n = (n = NaN)"

text \<open>
  Functions of the JavaScript runtime that the code calls and whose results depend on
  more than the model carries (floating-point parsing and printing, the engine's date
  parser, Unicode case mapping, calendar formatting) are taken as parameters.
\<close>

record runtime =
  parseFloat :: "string \<Rightarrow> number"
  Date_parse :: "string \<Rightarrow> number"
  toLowerCase :: "string \<Rightarrow> string"
  toISOString :: "int \<Rightarrow> string"
  Number_toString :: "number \<Rightarrow> string"

definition ms_per_day :: int where
  "ms_per_day = 1000 * 60 * 60 * 24"

definition Date_getTime :: "int \<Rightarrow> int" where
  \<comment> \<open>\<^verbatim>\<open>new Date(s).getTime()\<close> for the date-only ISO string of a day: UTC midnight\<close>
  "Date_getTime day = day * ms_per_day"

definition utc_day :: "int \<Rightarrow> int" where
  \<comment> \<open>the day named by \<^verbatim>\<open>toISOString().split('T')[0]\<close> of an instant\<close>
  "utc_day t = t div ms_per_day"

definition digit_char :: "nat \<Rightarrow> char" where
  "digit_char n = ''0123456789'' ! n"

fun show_nat :: "nat \<Rightarrow> string" where
  "show_nat n = (if n < 10 then [digit_char n] else show_nat (n div 10) @ [digit_char (n mod 10)])"

declare show_nat.simps [simp del]

definition show_int :: "int \<Rightarrow> string" where
  \<comment> \<open>the template-literal rendering of an integral number\<close>
  "show_int i = (if i < 0 then CHR ''-'' # show_nat (nat (- i)) else show_nat (nat i))"

fun split_on :: "char \<Rightarrow> string \<Rightarrow> string list" where
  \<comment> \<open>\<^verbatim>\<open>String.prototype.split\<close> with a one-character separator\<close>
  "split_on d [] = [[]]"
| "split_on d (c # cs) =
     (if c = d then [] # split_on d cs
      else (case split_on d cs of [] \<Rightarrow> [[c]] | w # ws \<Rightarrow> (c # w) # ws))"

fun join :: "string \<Rightarrow> string list \<Rightarrow> string" where
  \<comment> \<open>\<^verbatim>\<open>Array.prototype.join\<close>\<close>
  "join sep [] = []"
| "join sep [x] = x"
| "join sep (x # y # ys) = x @ sep @ join sep (y # ys)"

definition is_whitespace :: "char \<Rightarrow> bool" where
  \<comment> \<open>white space and line terminators of the Latin-1 range\<close>
  "is_whitespace c = (of_char c \<in> {9, 10, 11, 12, 13, 32, 160 :: nat})"

definition trim :: "string \<Rightarrow> string" where
  "trim s = rev (dropWhile is_whitespace (rev (dropWhile is_whitespace s)))"

definition or_empty :: "string option \<Rightarrow> string" where
  \<comment> \<open>\<^verbatim>\<open>x || ''\<close> for a string that may be null or undefined\<close>
  "or_empty x = (case x of None \<Rightarrow> [] | Some s \<Rightarrow> s)"

definition or_null :: "string option \<Rightarrow> string option" where
  \<comment> \<open>\<^verbatim>\<open>x || null\<close>: the empty string is falsy\<close>
  "or_null x = (case x of None \<Rightarrow> None | Some s \<Rightarrow> (if s = [] then None else Some s))"

definition truthy :: "string option \<Rightarrow> bool" where
  "truthy x = (case x of None \<Rightarrow> False | Some s \<Rightarrow> s \<noteq> [])"

definition iso_date :: "runtime \<Rightarrow> int \<Rightarrow> string" where
  \<comment> \<open>\<^verbatim>\<open>d.toISOString().split('T')[0]\<close>\<close>
  "iso_date rt t = (case split_on CHR ''T'' (toISOString rt t) of [] \<Rightarrow> ''undefined'' | x # _ \<Rightarrow> x)"

section \<open>Expiry classifier of the license table\<close>

text \<open>
  \<^verbatim>\<open>getExpiryStatus\<close> in \<^verbatim>\<open>LicenseTable.tsx\<close>.  \<open>now\<close> is the instant read by
  \<^verbatim>\<open>new Date()\<close>; \<open>expiryDate\<close> is the day number of the row's expiry date.
  The quotient is the exact one: the double-precision quotient of two integers of this
  size has the same ceiling.
\<close>

definition daysUntilExpiry :: "int \<Rightarrow> int \<Rightarrow> int" where
  "daysUntilExpiry now expiryDate =
     \<lceil>real_of_int (Date_getTime expiryDate - now) / real_of_int ms_per_day\<rceil>"

record expiry_badge =
  badge_status :: string
  badge_variant :: string
  badge_text :: string

definition getExpiryStatus :: "int \<Rightarrow> int \<Rightarrow> expiry_badge" where
  "getExpiryStatus now expiryDate =
     (let d = daysUntilExpiry now expiryDate in
      if d < 0 then
        \<lparr>badge_status = ''expired'', badge_variant = ''destructive'', badge_text = ''Expired''\<rparr>
      else if d \<le> 7 then
        \<lparr>badge_status = ''critical'', badge_variant = ''destructive'',
         badge_text = show_int d @ '' days''\<rparr>
      else if d \<le> 30 then
        \<lparr>badge_status = ''warning'', badge_variant = ''default'',
         badge_text = show_int d @ '' days''\<rparr>
      else
        \<lparr>badge_status = ''active'', badge_variant = ''secondary'',
         badge_text = show_int d @ '' days''\<rparr>)"

text \<open>The order of the four tiers, from most to least pressing.\<close>

definition tier_rank :: "string \<Rightarrow> nat" where
  "tier_rank s =
     (if s = ''expired'' then 0 else if s = ''critical'' then 1
      else if s = ''warning'' then 2 else 3)"

section \<open>The store as the browser components see it\<close>

text \<open>
  A row of \<^verbatim>\<open>licenses\<close> with the columns the table, the status badge and the payment
  dialog read or write, joined with its location; a row of \<^verbatim>\<open>payment_history\<close> as
  the components insert it (the store adds id and timestamps).  Next to the two tables the
  state holds the warnings written to the browser console.
\<close>

record license =
  lic_id :: string
  lic_product_name :: string
  lic_vendor_name :: string
  lic_category :: string
  lic_locations :: "(string \<times> string) option"
  lic_amount :: number
  lic_billing_cycle :: string
  lic_start_date :: string
  lic_expiry_date :: string
  lic_last_renewal_date :: "string option"
  lic_status :: "string option"
  lic_payment_status :: bool
  lic_notes :: "string option"

record payment =
  pay_license_id :: string
  pay_amount :: number
  pay_payment_date :: string
  pay_payment_method :: "string option"
  pay_transaction_id :: "string option"
  pay_notes :: "string option"
  pay_created_by :: string

record store =
  licenses :: "license list"
  payment_history :: "payment list"
  console :: "string list"

text \<open>
  What the backend answers to the calls of one handler run, and the clock.  Row-level
  authorisation is the backend's business: a call it rejects comes back as an error.
\<close>

record backend =
  update_error :: "string option"
  select_error :: "string option"
  insert_error :: "string option"
  auth_user :: "string option"
  now :: int

datatype toast = Success string | Error string

record update_data =
  upd_status :: "string option"
  upd_payment_status :: "bool option"

definition apply_update :: "update_data \<Rightarrow> license \<Rightarrow> license" where
  "apply_update u r =
     (let r1 = (case upd_status u of None \<Rightarrow> r | Some st \<Rightarrow> r\<lparr>lic_status := Some st\<rparr>)
      in (case upd_payment_status u of None \<Rightarrow> r1 | Some p \<Rightarrow> r1\<lparr>lic_payment_status := p\<rparr>))"

definition update_licenses_eq_id :: "update_data \<Rightarrow> string \<Rightarrow> license list \<Rightarrow> license list" where
  \<comment> \<open>\<^verbatim>\<open>.from('licenses').update(u).eq('id', licenseId)\<close>\<close>
  "update_licenses_eq_id u licenseId rows =
     map (\<lambda>r. if lic_id r = licenseId then apply_update u r else r) rows"

definition select_amount_single :: "backend \<Rightarrow> string \<Rightarrow> license list \<Rightarrow> number option" where
  \<comment> \<open>\<^verbatim>\<open>.select('amount').eq('id', licenseId).single()\<close>: data is null unless exactly one row matches\<close>
  "select_amount_single be licenseId rows =
     (case select_error be of
        Some e \<Rightarrow> None
      | None \<Rightarrow> (case filter (\<lambda>r. lic_id r = licenseId) rows of
                   [r] \<Rightarrow> Some (lic_amount r)
                 | _ \<Rightarrow> None))"

section \<open>Status transition of the payment status badge\<close>

definition updateData :: "string \<Rightarrow> update_data" where
  "updateData newStatus =
     (if newStatus = ''Paid'' \<or> newStatus = ''Confirmed'' then
        \<lparr>upd_status = Some newStatus, upd_payment_status = Some True\<rparr>
      else if newStatus = ''Expired'' \<or> newStatus = ''Cancelled'' then
        \<lparr>upd_status = Some newStatus, upd_payment_status = Some False\<rparr>
      else \<lparr>upd_status = Some newStatus, upd_payment_status = None\<rparr>)"

definition auto_payment :: "runtime \<Rightarrow> backend \<Rightarrow> string \<Rightarrow> number \<Rightarrow> payment" where
  "auto_payment rt be licenseId amt =
     \<lparr>pay_license_id = licenseId,
      pay_amount = amt,
      pay_payment_date = iso_date rt (now be),
      pay_payment_method = None,
      pay_transaction_id = None,
      pay_notes = Some ''Payment recorded automatically when status updated to Paid'',
      pay_created_by = or_empty (auth_user be)\<rparr>"

definition updateStatus ::
  "runtime \<Rightarrow> backend \<Rightarrow> string \<Rightarrow> string option \<Rightarrow> string \<Rightarrow> store \<Rightarrow> toast \<times> store" where
  "updateStatus rt be licenseId currentStatus newStatus s =
     (case update_error be of
        Some licenseError \<Rightarrow> (Error licenseError, s)
      | None \<Rightarrow>
          (let s1 = s\<lparr>licenses := update_licenses_eq_id (updateData newStatus) licenseId (licenses s)\<rparr>;
               s2 =
                 (if newStatus = ''Paid'' \<and> currentStatus \<noteq> Some ''Paid'' then
                    (case select_amount_single be licenseId (licenses s1) of
                       None \<Rightarrow> s1
                     | Some amt \<Rightarrow>
                         (case insert_error be of
                            None \<Rightarrow>
                              s1\<lparr>payment_history :=
                                   payment_history s1 @ [auto_payment rt be licenseId amt]\<rparr>
                          | Some paymentError \<Rightarrow>
                              s1\<lparr>console :=
                                   console s1 @ [''Failed to create payment history: '' @ paymentError]\<rparr>))
                  else s1)
           in (Success (if newStatus = ''Paid'' \<and> currentStatus \<noteq> Some ''Paid''
                        then ''Status updated and payment history created!''
                        else ''Status updated successfully!''), s2)))"

text \<open>
  The update button of the dialog is disabled while an update runs and while the
  selected status is the current one; a disabled button runs nothing.
\<close>

definition update_disabled :: "bool \<Rightarrow> string option \<Rightarrow> string \<Rightarrow> bool" where
  "update_disabled updating currentStatus newStatus = (updating \<or> Some newStatus = currentStatus)"

definition click_update ::
  "runtime \<Rightarrow> backend \<Rightarrow> bool \<Rightarrow> string \<Rightarrow> string option \<Rightarrow> string \<Rightarrow> store \<Rightarrow> toast option \<times> store" where
  "click_update rt be updating licenseId currentStatus newStatus s =
     (if update_disabled updating currentStatus newStatus then (None, s)
      else (case updateStatus rt be licenseId currentStatus newStatus s of
              (t, s') \<Rightarrow> (Some t, s')))"

section \<open>Adding a payment in the payment history dialog\<close>

record new_payment =
  np_amount :: string
  np_payment_date :: "int option"
  np_payment_method :: string
  np_transaction_id :: string
  np_notes :: string

definition manual_payment :: "runtime \<Rightarrow> string \<Rightarrow> string \<Rightarrow> new_payment \<Rightarrow> int \<Rightarrow> payment" where
  "manual_payment rt uid licenseId newPayment date =
     \<lparr>pay_license_id = licenseId,
      pay_amount = parseFloat rt (np_amount newPayment),
      pay_payment_date = iso_date rt date,
      pay_payment_method = or_null (Some (np_payment_method newPayment)),
      pay_transaction_id = or_null (Some (np_transaction_id newPayment)),
      pay_notes = or_null (Some (np_notes newPayment)),
      pay_created_by = uid\<rparr>"

definition addPayment ::
  "runtime \<Rightarrow> backend \<Rightarrow> string option \<Rightarrow> string \<Rightarrow> new_payment \<Rightarrow> store \<Rightarrow> toast option \<times> store" where
  "addPayment rt be user licenseId newPayment s =
     (case user of
        None \<Rightarrow> (None, s)
      | Some uid \<Rightarrow>
          if np_amount newPayment = [] then (None, s)
          else (case np_payment_date newPayment of
                  None \<Rightarrow> (None, s)
                | Some date \<Rightarrow>
                    (case insert_error be of
                       Some e \<Rightarrow> (Some (Error e), s)
                     | None \<Rightarrow>
                         (let s1 = s\<lparr>payment_history :=
                                       payment_history s @ [manual_payment rt uid licenseId newPayment date]\<rparr>;
                              s2 = (case update_error be of
                                      Some e \<Rightarrow> s1
                                    | None \<Rightarrow>
                                        s1\<lparr>licenses :=
                                             update_licenses_eq_id
                                               \<lparr>upd_status = Some ''Paid'', upd_payment_status = Some True\<rparr>
                                               licenseId (licenses s1)\<rparr>)
                          in (Some (Success ''Payment record added successfully!''), s2)))))"

section \<open>CSV export of the license table\<close>

definition headers :: "string list" where
  "headers =
     [''Product Name'', ''Vendor'', ''Category'', ''Branch Name'', ''Amount'', ''Billing Cycle'',
      ''Start Date'', ''Expiry Date'', ''Last Renewal Date'', ''Status'', ''Payment Status'',
      ''Notes'']"

text \<open>An operand of the template literal that wraps a field: a string or a number.\<close>

datatype field = Str string | Number number

definition csvData :: "license \<Rightarrow> field list" where
  "csvData l =
     [Str (lic_product_name l),
      Str (lic_vendor_name l),
      Str (lic_category l),
      Str (or_empty (map_option snd (lic_locations l))),
      Number (lic_amount l),
      Str (lic_billing_cycle l),
      Str (lic_start_date l),
      Str (lic_expiry_date l),
      Str (or_empty (lic_last_renewal_date l)),
      Str (or_empty (lic_status l)),
      Str (if lic_payment_status l then ''Paid'' else ''Unpaid''),
      Str (or_empty (lic_notes l))]"

definition field_text :: "runtime \<Rightarrow> field \<Rightarrow> string" where
  "field_text rt f = (case f of Str s \<Rightarrow> s | Number n \<Rightarrow> Number_toString rt n)"

definition quoted :: "runtime \<Rightarrow> field \<Rightarrow> string" where
  "quoted rt f = [CHR 0x22] @ field_text rt f @ [CHR 0x22]"

definition csv_line :: "runtime \<Rightarrow> field list \<Rightarrow> string" where
  "csv_line rt row = join '','' (map (quoted rt) row)"

definition csvContent :: "runtime \<Rightarrow> license list \<Rightarrow> string" where
  "csvContent rt ls = join [CHR 0x0A] (map (csv_line rt) (map Str headers # map csvData ls))"

definition download_name :: "runtime \<Rightarrow> int \<Rightarrow> string" where
  "download_name rt t = ''licenses_'' @ iso_date rt t @ ''.csv''"

definition exportToCSV :: "runtime \<Rightarrow> int \<Rightarrow> license list \<Rightarrow> string \<times> string \<times> toast" where
  \<comment> \<open>the download's name, its content, and the toast\<close>
  "exportToCSV rt t ls =
     (download_name rt t, csvContent rt ls, Success ''Licenses exported successfully'')"

section \<open>CSV import\<close>

text \<open>
  A parsed row is an object keyed by the header names; a key that the header line does not
  name is undefined (\<open>None\<close>).
\<close>

type_synonym csv_row = "string \<rightharpoonup> string"

definition strip_quotes :: "string \<Rightarrow> string" where
  \<comment> \<open>\<^verbatim>\<open>.replace(/^"|"$/g, '')\<close>: one leading quote, then one trailing quote of what is left\<close>
  "strip_quotes v =
     (let v1 = (case v of [] \<Rightarrow> [] | c # cs \<Rightarrow> (if c = CHR 0x22 then cs else v))
      in if v1 \<noteq> [] \<and> last v1 = CHR 0x22 then butlast v1 else v1)"

definition build_row :: "string list \<Rightarrow> string list \<Rightarrow> csv_row" where
  "build_row hs vals =
     fold (\<lambda>(i, header) row. row(header \<mapsto> (if i < length vals then vals ! i else [])))
          (enumerate 0 hs) Map.empty"

definition parseCSV :: "string \<Rightarrow> csv_row list" where
  "parseCSV text =
     (case split_on (CHR 0x0A) (trim text) of
        [] \<Rightarrow> []
      | line0 # rest \<Rightarrow>
          (let hs = map trim (split_on CHR '','' line0)
           in map (\<lambda>line. build_row hs (map (\<lambda>v. strip_quotes (trim v)) (split_on CHR '','' line)))
                  rest))"

definition to_string :: "string option \<Rightarrow> string" where
  \<comment> \<open>the string a built-in makes of its argument: \<^verbatim>\<open>undefined\<close> becomes its name\<close>
  "to_string v = (case v of None \<Rightarrow> ''undefined'' | Some s \<Rightarrow> s)"

definition row_error :: "nat \<Rightarrow> string \<Rightarrow> string" where
  \<comment> \<open>\<^verbatim>\<open>`Row ${index + 2}: ...`\<close>\<close>
  "row_error index msg = ''Row '' @ show_nat (index + 2) @ '': '' @ msg"

definition validateRow :: "runtime \<Rightarrow> csv_row \<Rightarrow> nat \<Rightarrow> string list" where
  "validateRow rt row index =
     (if \<not> truthy (row ''product_name'') then [row_error index ''Product name is required''] else [])
   @ (if \<not> truthy (row ''vendor_name'') then [row_error index ''Vendor name is required''] else [])
   @ (if \<not> truthy (row ''category'') then [row_error index ''Category is required''] else [])
   @ (if \<not> truthy (row ''amount'') \<or> isNaN (parseFloat rt (to_string (row ''amount'')))
      then [row_error index ''Valid amount is required''] else [])
   @ (if \<not> truthy (row ''billing_cycle'') then [row_error index ''Billing cycle is required''] else [])
   @ (if \<not> truthy (row ''status'') then [row_error index ''Status is required''] else [])
   @ (if \<not> truthy (row ''start_date'') then [row_error index ''Start date is required''] else [])
   @ (if \<not> truthy (row ''expiry_date'') then [row_error index ''Expiry date is required''] else [])
   @ (if truthy (row ''start_date'') \<and> isNaN (Date_parse rt (to_string (row ''start_date'')))
      then [row_error index ''Invalid start date format''] else [])
   @ (if truthy (row ''expiry_date'') \<and> isNaN (Date_parse rt (to_string (row ''expiry_date'')))
      then [row_error index ''Invalid expiry date format''] else [])
   @ (if truthy (row ''last_renewal_date'') \<and> row ''last_renewal_date'' \<noteq> Some []
        \<and> isNaN (Date_parse rt (to_string (row ''last_renewal_date'')))
      then [row_error index ''Invalid last renewal date format''] else [])"

record category =
  cat_id :: string
  cat_name :: string

record location =
  loc_id :: string
  loc_name :: string

record license_insert =
  ins_product_name :: string
  ins_vendor_name :: string
  ins_category :: string
  ins_category_id :: "string option"
  ins_location_id :: "string option"
  ins_amount :: number
  ins_billing_cycle :: string
  ins_status :: string
  ins_start_date :: string
  ins_expiry_date :: string
  ins_last_renewal_date :: "string option"
  ins_login_link :: "string option"
  ins_password :: "string option"
  ins_notes :: "string option"
  ins_notification_email :: "string option"
  ins_notification_phone :: "string option"
  ins_created_by :: string
  ins_user_id :: string

definition to_insert ::
  "runtime \<Rightarrow> string \<Rightarrow> category list \<Rightarrow> location list \<Rightarrow> csv_row \<Rightarrow> license_insert" where
  "to_insert rt uid categories locations row =
     (let categoryMatch =
            find (\<lambda>cat. toLowerCase rt (cat_name cat) = toLowerCase rt (to_string (row ''category'')))
                 categories;
          locationId = (case locations of [] \<Rightarrow> None | l # _ \<Rightarrow> Some (loc_id l))
      in \<lparr>ins_product_name = to_string (row ''product_name''),
          ins_vendor_name = to_string (row ''vendor_name''),
          ins_category = to_string (row ''category''),
          ins_category_id = or_null (map_option cat_id categoryMatch),
          ins_location_id = locationId,
          ins_amount = parseFloat rt (to_string (row ''amount'')),
          ins_billing_cycle = to_string (row ''billing_cycle''),
          ins_status = to_string (row ''status''),
          ins_start_date = to_string (row ''start_date''),
          ins_expiry_date = to_string (row ''expiry_date''),
          ins_last_renewal_date = or_null (row ''last_renewal_date''),
          ins_login_link = or_null (row ''login_link''),
          ins_password = or_null (row ''password''),
          ins_notes = or_null (row ''notes''),
          ins_notification_email = or_null (row ''notification_email''),
          ins_notification_phone = or_null (row ''notification_phone''),
          ins_created_by = uid,
          ins_user_id = uid\<rparr>)"

text \<open>
  The outcome of one run of \<^verbatim>\<open>handleImport\<close>: nothing happened (no file or no user), the
  validation errors shown in the dialog, or a toast.  The second component is the batch the
  store has inserted, empty when no insert was made or the store rejected it.
\<close>

datatype import_outcome = Ignored | Rejected "string list" | Toast toast

definition allErrors :: "runtime \<Rightarrow> csv_row list \<Rightarrow> string list" where
  "allErrors rt rows = concat (map (\<lambda>(index, row). validateRow rt row index) (enumerate 0 rows))"

definition handleImport ::
  "runtime \<Rightarrow> backend \<Rightarrow> (string + string) option \<Rightarrow> string option \<Rightarrow> category list \<Rightarrow>
   location list \<Rightarrow> import_outcome \<times> license_insert list" where
  "handleImport rt be file user categories locations =
     (case file of
        None \<Rightarrow> (Ignored, [])
      | Some content \<Rightarrow>
          (case user of
             None \<Rightarrow> (Ignored, [])
           | Some uid \<Rightarrow>
               (case content of
                  Inl e \<Rightarrow> (Toast (Error e), [])
                | Inr text \<Rightarrow>
                    (let rows = parseCSV text;
                         errs = allErrors rt rows
                     in if length errs > 0 then (Rejected errs, [])
                        else (let licensesToInsert = map (to_insert rt uid categories locations) rows
                              in (case insert_error be of
                                    Some e \<Rightarrow> (Toast (Error e), [])
                                  | None \<Rightarrow>
                                      (Toast (Success (''Successfully imported '' @ show_nat (length rows)
                                                       @ '' license(s)!'')),
                                       licensesToInsert)))))))"

section \<open>Notification sweep\<close>

text \<open>
  The edge function \<^verbatim>\<open>check-license-expiry\<close>.  A row of \<^verbatim>\<open>licenses\<close> as the function
  reads it, with the expiry date as a day number, and a row of \<^verbatim>\<open>notification_settings\<close>.
\<close>

record License =
  sw_id :: string
  sw_product_name :: string
  sw_vendor_name :: string
  sw_expiry_date :: int
  sw_notification_email :: "string option"
  sw_notification_phone :: "string option"
  sw_created_by :: string
  sw_payment_status :: bool

record notification_setting =
  ns_user_id :: string
  ns_days_before_expiry :: "int list"
  ns_email_enabled :: bool

record database =
  db_licenses :: "License list"
  db_notification_settings :: "notification_setting list"

record email =
  mail_from :: string
  mail_to :: "string list"
  mail_subject :: string

text \<open>
  The mail provider either returns an answer or throws an error with a message.  An answer
  has two parts, \<^verbatim>\<open>data\<close> and \<^verbatim>\<open>error\<close>: the first argument of \<open>Returned\<close> is
  \<^verbatim>\<open>data?.id\<close>, the second the message of \<^verbatim>\<open>error\<close> when the answer carries one, as
  it does for a request the provider rejects.  The function reads the first part only.  The
  provider's answer may depend on the request and on how many requests came before.  The
  HTML body of a mail and the headers of a response, on which nothing the function computes
  depends, are left out.
\<close>

datatype send_outcome = Returned "string option" "string option" | Thrown string

record notification =
  n_license_id :: string
  n_email :: "string option"
  n_days_until_expiry :: int
  n_urgency :: string
  n_status :: string
  n_email_id :: "string option"
  n_error :: "string option"

record sweep_env =
  sweep_now :: int
  query_error :: "string option"
  send :: "nat \<Rightarrow> email \<Rightarrow> send_outcome"

datatype body =
    Empty
  | Summary bool nat nat nat "notification list"
  | Failure string bool

record response =
  resp_status :: nat
  resp_body :: body

definition expiring :: "int \<Rightarrow> int \<Rightarrow> License list \<Rightarrow> License list" where
  \<comment> \<open>\<^verbatim>\<open>.gte('expiry_date', ...).lte('expiry_date', ...).not('notification_email', 'is', null)\<close>\<close>
  "expiring today in30Days rows =
     filter (\<lambda>l. utc_day today \<le> sw_expiry_date l \<and> sw_expiry_date l \<le> utc_day in30Days
                 \<and> sw_notification_email l \<noteq> None) rows"

definition urgency :: "int \<Rightarrow> bool \<times> string" where
  \<comment> \<open>\<^verbatim>\<open>shouldNotify\<close> and \<^verbatim>\<open>urgencyLevel\<close>\<close>
  "urgency d =
     (if d \<le> 3 then (True, ''URGENT'')
      else if d \<le> 7 then (True, ''HIGH'')
      else if d \<le> 15 then (True, ''MEDIUM'')
      else if d \<le> 30 then (True, ''LOW'')
      else (False, []))"

definition alert :: "License \<Rightarrow> int \<Rightarrow> email" where
  "alert l d =
     \<lparr>mail_from = ''License Manager <notifications@resend.dev>'',
      mail_to = [to_string (sw_notification_email l)],
      mail_subject = ''License Expiry Alert: '' @ sw_product_name l @ '' - '' @ show_int d
                     @ '' days remaining''\<rparr>"

text \<open>
  The loop over the query's rows.  The state is the list \<^verbatim>\<open>notifications\<close> and the
  requests handed to the provider so far.
\<close>

fun notify :: "sweep_env \<Rightarrow> License list \<Rightarrow> notification list \<times> email list \<Rightarrow>
    notification list \<times> email list" where
  "notify env [] acc = acc"
| "notify env (l # ls) (notifications, outbox) =
     (let d = daysUntilExpiry (sweep_now env) (sw_expiry_date l);
          (shouldNotify, urgencyLevel) = urgency d
      in if shouldNotify \<and> truthy (sw_notification_email l) then
           (case send env (length outbox) (alert l d) of
              Returned email_id email_error \<Rightarrow>
                notify env ls
                  (notifications @
                     [\<lparr>n_license_id = sw_id l, n_email = sw_notification_email l,
                       n_days_until_expiry = d, n_urgency = urgencyLevel,
                       n_status = ''sent'', n_email_id = email_id, n_error = None\<rparr>],
                   outbox @ [alert l d])
            | Thrown message \<Rightarrow>
                notify env ls
                  (notifications @
                     [\<lparr>n_license_id = sw_id l, n_email = sw_notification_email l,
                       n_days_until_expiry = d, n_urgency = urgencyLevel,
                       n_status = ''failed'', n_email_id = None, n_error = Some message\<rparr>],
                   outbox @ [alert l d]))
         else notify env ls (notifications, outbox))"

definition serve :: "sweep_env \<Rightarrow> string \<Rightarrow> database \<Rightarrow> response \<times> email list" where
  \<comment> \<open>the response, and the requests handed to the mail provider\<close>
  "serve env method db =
     (if method = ''OPTIONS'' then (\<lparr>resp_status = 200, resp_body = Empty\<rparr>, [])
      else
        (let today = sweep_now env;
             in30Days = today + 30 * 24 * 60 * 60 * 1000
         in (case query_error env of
               Some e \<Rightarrow> (\<lparr>resp_status = 500, resp_body = Failure e False\<rparr>, [])
             | None \<Rightarrow>
                 (let licenses = expiring today in30Days (db_licenses db);
                      (notifications, outbox) = notify env licenses ([], [])
                  in (\<lparr>resp_status = 200,
                       resp_body =
                         Summary True (length licenses)
                           (length (filter (\<lambda>n. n_status n = ''sent'') notifications))
                           (length (filter (\<lambda>n. n_status n = ''failed'') notifications))
                           notifications\<rparr>,
                      outbox)))))"

section \<open>Notions used to state the properties\<close>

definition first_line :: "string \<Rightarrow> string" where
  "first_line s = takeWhile (\<lambda>c. c \<noteq> CHR 0x0A) s"

definition double_quoted :: "string \<Rightarrow> string" where
  "double_quoted f = [CHR 0x22] @ f @ [CHR 0x22]"

text \<open>
  The sweep's view of one license: whether a mail is attempted for it, and the record that
  the \<open>k\<close>-th request to the provider leaves in the details.
\<close>

definition notifiable :: "sweep_env \<Rightarrow> License \<Rightarrow> bool" where
  "notifiable env l =
     (fst (urgency (daysUntilExpiry (sweep_now env) (sw_expiry_date l)))
      \<and> truthy (sw_notification_email l))"

definition alert_for :: "sweep_env \<Rightarrow> License \<Rightarrow> email" where
  "alert_for env l = alert l (daysUntilExpiry (sweep_now env) (sw_expiry_date l))"

definition outcome_record :: "sweep_env \<Rightarrow> nat \<Rightarrow> License \<Rightarrow> notification" where
  "outcome_record env k l =
     (let d = daysUntilExpiry (sweep_now env) (sw_expiry_date l)
      in case send env k (alert l d) of
           Returned email_id email_error \<Rightarrow>
             \<lparr>n_license_id = sw_id l, n_email = sw_notification_email l,
              n_days_until_expiry = d, n_urgency = snd (urgency d),
              n_status = ''sent'', n_email_id = email_id, n_error = None\<rparr>
         | Thrown message \<Rightarrow>
             \<lparr>n_license_id = sw_id l, n_email = sw_notification_email l,
              n_days_until_expiry = d, n_urgency = snd (urgency d),
              n_status = ''failed'', n_email_id = None, n_error = Some message\<rparr>)"

text \<open>
  The licenses the sweep is meant to look at on the day of the instant \<open>today\<close>: expiry
  date from that day to thirty days later, both included, and a notification email that is
  not null.
\<close>

definition selected :: "int \<Rightarrow> License list \<Rightarrow> License list" where
  "selected today rows =
     filter (\<lambda>l. utc_day today \<le> sw_expiry_date l \<and> sw_expiry_date l \<le> utc_day today + 30
                 \<and> sw_notification_email l \<noteq> None) rows"

definition with_email :: "License list \<Rightarrow> License list" where
  "with_email rows = filter (\<lambda>l. truthy (sw_notification_email l)) rows"

section \<open>Sample data\<close>

text \<open>Concrete inputs at which the theorems below are instantiated.\<close>

definition sample_runtime :: runtime where
  "sample_runtime =
     \<lparr>parseFloat = (\<lambda>s. if s = ''99.00'' then Num 99 else if s = ''250'' then Num 250 else NaN),
      Date_parse = (\<lambda>s. if s = ''2024-01-01'' then Num 1704067200000
                         else if s = ''2024-12-31'' then Num 1735603200000 else NaN),
      toLowerCase = (\<lambda>s. s),
      toISOString = (\<lambda>t. ''2025-07-09T10:15:00.000Z''),
      Number_toString = (\<lambda>n. if n = Num 99 then ''99'' else ''NaN'')\<rparr>"

text \<open>
  Two import files with the eight required columns: one data row without an amount; and a
  valid data row followed by one without a vendor and with an amount that is no number.
\<close>

definition sample_csv :: string where
  "sample_csv =
     ''product_name,vendor_name,category,amount,billing_cycle,status,start_date,expiry_date''
     @ [CHR 0x0A] @ ''Office,Microsoft,Software,,Annual,Active,2024-01-01,2024-12-31''"

definition sample_csv2 :: string where
  "sample_csv2 =
     ''product_name,vendor_name,category,amount,billing_cycle,status,start_date,expiry_date''
     @ [CHR 0x0A] @ ''Office,Microsoft,Software,99.00,Annual,Active,2024-01-01,2024-12-31''
     @ [CHR 0x0A] @ ''Suite,,Design,abc,Monthly,Active,2024-01-01,2024-12-31''"

definition sample_license :: license where
  "sample_license =
     \<lparr>lic_id = ''L1'', lic_product_name = ''Office'', lic_vendor_name = ''Microsoft'',
      lic_category = ''Software'', lic_locations = Some (''B1'', ''Head Office''),
      lic_amount = Num 99, lic_billing_cycle = ''Annual'', lic_start_date = ''2024-01-01'',
      lic_expiry_date = ''2024-12-31'', lic_last_renewal_date = None,
      lic_status = Some ''Pending'', lic_payment_status = False, lic_notes = None\<rparr>"

definition sample_store :: store where
  "sample_store = \<lparr>licenses = [sample_license], payment_history = [], console = []\<rparr>"

definition sample_backend :: backend where
  "sample_backend =
     \<lparr>update_error = None, select_error = None, insert_error = None, auth_user = Some ''U1'',
      now = 1752056100000\<rparr>"

text \<open>
  A sweep on day 20278 (2025-07-09, at 10:15 UTC) over six licenses: expiring in 2 days; in
  10 days; in 20 days with an empty email; in 40 days; in 5 days with no email; in 30 days
  and already paid.  The provider throws on the second request.
\<close>

definition sample_License :: "string \<Rightarrow> int \<Rightarrow> string option \<Rightarrow> bool \<Rightarrow> License" where
  "sample_License i day mail paid =
     \<lparr>sw_id = i, sw_product_name = ''Office'', sw_vendor_name = ''Microsoft'',
      sw_expiry_date = day, sw_notification_email = mail, sw_notification_phone = None,
      sw_created_by = ''U1'', sw_payment_status = paid\<rparr>"

definition sample_database :: database where
  "sample_database =
     \<lparr>db_licenses =
        [sample_License ''A'' 20280 (Some ''a@example.com'') False,
         sample_License ''B'' 20288 (Some ''b@example.com'') False,
         sample_License ''C'' 20298 (Some []) False,
         sample_License ''D'' 20318 (Some ''d@example.com'') False,
         sample_License ''E'' 20283 None False,
         sample_License ''F'' 20308 (Some ''f@example.com'') True],
      db_notification_settings =
        [\<lparr>ns_user_id = ''U1'', ns_days_before_expiry = [15, 7, 1], ns_email_enabled = False\<rparr>]\<rparr>"

definition sample_sweep_env :: sweep_env where
  "sample_sweep_env =
     \<lparr>sweep_now = 1752056100000, query_error = None,
      send = (\<lambda>k m. if k = 1 then Thrown ''rate limit exceeded'' else Returned (Some ''re_1'') None)\<rparr>"

text \<open>
  A sweep on the same day over the first of these licenses alone, in which the provider
  rejects the request: it returns an answer without data and with an error.
\<close>

definition sample_rejecting_env :: sweep_env where
  "sample_rejecting_env =
     \<lparr>sweep_now = 1752056100000, query_error = None,
      send = (\<lambda>k m. Returned None (Some ''Too many requests''))\<rparr>"

definition sample_single :: database where
  "sample_single =
     \<lparr>db_licenses = [sample_License ''A'' 20280 (Some ''a@example.com'') False],
      db_notification_settings = []\<rparr>"

text \<open>The details that the sweep over the six licenses reports.\<close>

definition sample_details :: "notification list" where
  "sample_details =
     [\<lparr>n_license_id = ''A'', n_email = Some ''a@example.com'', n_days_until_expiry = 2,
       n_urgency = ''URGENT'', n_status = ''sent'', n_email_id = Some ''re_1'', n_error = None\<rparr>,
      \<lparr>n_license_id = ''B'', n_email = Some ''b@example.com'', n_days_until_expiry = 10,
       n_urgency = ''MEDIUM'', n_status = ''failed'', n_email_id = None,
       n_error = Some ''rate limit exceeded''\<rparr>,
      \<lparr>n_license_id = ''F'', n_email = Some ''f@example.com'', n_days_until_expiry = 30,
       n_urgency = ''LOW'', n_status = ''sent'', n_email_id = Some ''re_1'', n_error = None\<rparr>]"

section \<open>Properties of the expiry classifier\<close>

lemma ms_per_day_pos: "0 < ms_per_day"
  by (simp add: ms_per_day_def)

lemma ceiling_of_int_divide:
  "\<lceil>real_of_int a / real_of_int b\<rceil> = - ((- a) div b)"
proof -
  have "- (real_of_int a / real_of_int b) = real_of_int (- a) / real_of_int b"
    by simp
  then have "\<lfloor>- (real_of_int a / real_of_int b)\<rfloor> = (- a) div b"
    by (simp only: floor_divide_of_int_eq)
  then show ?thesis
    by (simp only: ceiling_def)
qed

lemma daysUntilExpiry_calendar:
  "daysUntilExpiry N e = e - utc_day N"
proof -
  have D: "ms_per_day \<noteq> 0"
    using ms_per_day_pos by simp
  have "- (e * ms_per_day - N) = N + (- e) * ms_per_day"
    by simp
  moreover have "(N + (- e) * ms_per_day) div ms_per_day = - e + N div ms_per_day"
    using D by (rule div_mult_self1)
  ultimately have "(- (e * ms_per_day - N)) div ms_per_day = N div ms_per_day - e"
    by simp
  then have "- ((- (e * ms_per_day - N)) div ms_per_day) = e - N div ms_per_day"
    by simp
  then show ?thesis
    unfolding daysUntilExpiry_def Date_getTime_def utc_day_def
    by (simp only: ceiling_of_int_divide)
qed

lemma badge_status_cases:
  "badge_status (getExpiryStatus N e) =
     (if daysUntilExpiry N e < 0 then ''expired''
      else if daysUntilExpiry N e \<le> 7 then ''critical''
      else if daysUntilExpiry N e \<le> 30 then ''warning'' else ''active'')"
  by (simp add: getExpiryStatus_def Let_def)

text \<open>
  Claim C7.  For every expiry date \<open>E\<close> and instant \<open>N\<close>, the classifier of the table
  computes the ceiling of \<open>(E - N) / 1 day\<close>, which is the difference of the two calendar
  days, whatever the time of day of \<open>N\<close>; the tier is \<open>expired\<close> exactly when that number
  is negative, \<open>critical\<close> from 0 to 7, \<open>warning\<close> from 8 to 30 and \<open>active\<close> above; and
  the tier never becomes more pressing as the number of days grows.
\<close>

theorem getExpiryStatus_tiers:
  "daysUntilExpiry N e = e - utc_day N
   \<and> (badge_status (getExpiryStatus N e) = ''expired'') = (daysUntilExpiry N e < 0)
   \<and> (badge_status (getExpiryStatus N e) = ''critical'')
       = (0 \<le> daysUntilExpiry N e \<and> daysUntilExpiry N e \<le> 7)
   \<and> (badge_status (getExpiryStatus N e) = ''warning'')
       = (8 \<le> daysUntilExpiry N e \<and> daysUntilExpiry N e \<le> 30)
   \<and> (badge_status (getExpiryStatus N e) = ''active'') = (30 < daysUntilExpiry N e)
   \<and> (daysUntilExpiry N e \<le> daysUntilExpiry N' e' \<longrightarrow>
        tier_rank (badge_status (getExpiryStatus N e))
          \<le> tier_rank (badge_status (getExpiryStatus N' e')))"
  unfolding badge_status_cases
  by (simp add: daysUntilExpiry_calendar tier_rank_def)

theorem getExpiryStatus_tiers_witness:
  "daysUntilExpiry 8640005000 103 \<le> daysUntilExpiry 8640005000 140
   \<and> daysUntilExpiry 8640005000 103 = 3
   \<and> badge_status (getExpiryStatus 8640005000 103) = ''critical''
   \<and> badge_status (getExpiryStatus 8640005000 140) = ''active''
   \<and> tier_rank (badge_status (getExpiryStatus 8640005000 103))
        \<le> tier_rank (badge_status (getExpiryStatus 8640005000 140))"
  using getExpiryStatus_tiers [of 8640005000 103 8640005000 140]
    getExpiryStatus_tiers [of 8640005000 140 8640005000 140]
  by (simp add: utc_day_def ms_per_day_def)

section \<open>Properties of the status transition and of manual payments\<close>

lemma lic_id_apply_update: "lic_id (apply_update u r) = lic_id r"
  by (simp add: apply_update_def Let_def split: option.splits)

lemma lic_amount_apply_update: "lic_amount (apply_update u r) = lic_amount r"
  by (simp add: apply_update_def Let_def split: option.splits)

lemma filter_update_licenses_eq_id:
  "filter (\<lambda>r. lic_id r = licenseId) (update_licenses_eq_id u licenseId rows)
     = map (apply_update u) (filter (\<lambda>r. lic_id r = licenseId) rows)"
  by (induction rows) (simp_all add: update_licenses_eq_id_def lic_id_apply_update)

lemma apply_updateData:
  "apply_update (updateData newStatus) r =
     r\<lparr>lic_status := Some newStatus,
       lic_payment_status :=
         (if newStatus = ''Paid'' \<or> newStatus = ''Confirmed'' then True
          else if newStatus = ''Expired'' \<or> newStatus = ''Cancelled'' then False
          else lic_payment_status r)\<rparr>"
  by (simp add: apply_update_def updateData_def)

lemma licenses_updateStatus:
  "update_error be = None \<Longrightarrow>
   licenses (snd (updateStatus rt be licenseId currentStatus newStatus s))
     = update_licenses_eq_id (updateData newStatus) licenseId (licenses s)"
  by (simp add: updateStatus_def Let_def split: option.splits)

lemma select_after_update:
  assumes "filter (\<lambda>r. lic_id r = licenseId) rows = [r]" and "select_error be = None"
  shows "select_amount_single be licenseId (update_licenses_eq_id u licenseId rows)
           = Some (lic_amount r)"
  using assms
  by (simp add: select_amount_single_def filter_update_licenses_eq_id lic_amount_apply_update)

text \<open>
  Claim C2.  Whatever the current status and the requested status, a status update that the
  store accepts sets \<open>payment_status\<close> of the license to true when the new status is
  \<open>Paid\<close> or \<open>Confirmed\<close>, to false when it is \<open>Expired\<close> or \<open>Cancelled\<close>, and
  leaves it as it was for every other new status; the status becomes the requested one and
  no other row changes.
\<close>

theorem updateStatus_payment_status:
  assumes "update_error be = None"
  shows "licenses (snd (updateStatus rt be licenseId currentStatus newStatus s)) =
     map (\<lambda>r. if lic_id r = licenseId then
                 r\<lparr>lic_status := Some newStatus,
                   lic_payment_status :=
                     (if newStatus = ''Paid'' \<or> newStatus = ''Confirmed'' then True
                      else if newStatus = ''Expired'' \<or> newStatus = ''Cancelled'' then False
                      else lic_payment_status r)\<rparr>
               else r) (licenses s)"
  using assms
  by (simp only: licenses_updateStatus update_licenses_eq_id_def apply_updateData)

theorem updateStatus_payment_status_witness:
  "update_error sample_backend = None
   \<and> map lic_payment_status
        (licenses (snd (updateStatus sample_runtime sample_backend ''L1'' (Some ''Pending'')
                          ''Confirmed'' sample_store))) = [True]
   \<and> map lic_status
        (licenses (snd (updateStatus sample_runtime sample_backend ''L1'' (Some ''Pending'')
                          ''Confirmed'' sample_store))) = [Some ''Confirmed'']"
  using updateStatus_payment_status
    [of sample_backend sample_runtime "''L1''" "Some ''Pending''" "''Confirmed''" sample_store]
  by (simp add: sample_backend_def sample_store_def sample_license_def)

text \<open>
  Claim C8.  A transition whose new status is the license's current status adds no payment
  record, whatever the backend answers; and the dialog's button, disabled for such a
  selection, changes nothing at all.
\<close>

theorem same_status_no_payment:
  assumes "currentStatus = Some newStatus"
  shows "payment_history (snd (updateStatus rt be licenseId currentStatus newStatus s))
           = payment_history s
       \<and> click_update rt be updating licenseId currentStatus newStatus s = (None, s)"
  using assms
  by (auto simp add: updateStatus_def click_update_def update_disabled_def Let_def
      split: option.splits)

theorem same_status_no_payment_witness:
  "payment_history (snd (updateStatus sample_runtime sample_backend ''L1'' (Some ''Paid'') ''Paid''
       (sample_store\<lparr>licenses := [sample_license\<lparr>lic_status := Some ''Paid''\<rparr>]\<rparr>))) = []
   \<and> click_update sample_runtime sample_backend False ''L1'' (Some ''Paid'') ''Paid''
        (sample_store\<lparr>licenses := [sample_license\<lparr>lic_status := Some ''Paid''\<rparr>]\<rparr>)
      = (None, sample_store\<lparr>licenses := [sample_license\<lparr>lic_status := Some ''Paid''\<rparr>]\<rparr>)"
  using same_status_no_payment
    [of "Some ''Paid''" "''Paid''" sample_runtime sample_backend "''L1''"
        "sample_store\<lparr>licenses := [sample_license\<lparr>lic_status := Some ''Paid''\<rparr>]\<rparr>" False]
  by (simp add: sample_store_def)


lemma payment_history_updateStatus_paid:
  assumes "update_error be = None" and "currentStatus \<noteq> Some ''Paid''"
    and "filter (\<lambda>r. lic_id r = licenseId) (licenses s) = [r]"
    and "select_error be = None"
  shows "payment_history (snd (updateStatus rt be licenseId currentStatus ''Paid'' s)) =
           (case insert_error be of
              None \<Rightarrow> payment_history s @ [auto_payment rt be licenseId (lic_amount r)]
            | Some e \<Rightarrow> payment_history s)"
  using assms
  by (simp add: updateStatus_def Let_def select_after_update split: option.splits)

lemma fst_updateStatus:
  "update_error be = None \<Longrightarrow>
   fst (updateStatus rt be licenseId currentStatus newStatus s) =
     Success (if newStatus = ''Paid'' \<and> currentStatus \<noteq> Some ''Paid''
              then ''Status updated and payment history created!''
              else ''Status updated successfully!'')"
  by (simp add: updateStatus_def Let_def)

lemma console_updateStatus_paid:
  assumes "update_error be = None" and "currentStatus \<noteq> Some ''Paid''"
    and "filter (\<lambda>r. lic_id r = licenseId) (licenses s) = [r]"
    and "select_error be = None" and "insert_error be = Some e"
  shows "console (snd (updateStatus rt be licenseId currentStatus ''Paid'' s)) =
           console s @ [''Failed to create payment history: '' @ e]"
  using assms
  by (simp add: updateStatus_def Let_def select_after_update split: option.splits)

text \<open>
  Claim C1.  For a license whose current status is not \<open>Paid\<close>, a transition to \<open>Paid\<close>
  that the store accepts appends exactly one payment record for that license: its amount is
  the license's amount, its date is today's, its notes are the automatic marker and its
  owner is the acting user.  If the store rejects the insertion, the status update has still
  been applied and reported as a success; no record is added and the rejection is only
  written to the console.
\<close>

theorem paid_transition_records_payment:
  assumes "update_error be = None"
    and "select_error be = None"
    and "auth_user be = Some uid"
    and "currentStatus \<noteq> Some ''Paid''"
    and "filter (\<lambda>r. lic_id r = licenseId) (licenses s) = [r]"
  shows "(insert_error be = None \<longrightarrow>
            payment_history (snd (updateStatus rt be licenseId currentStatus ''Paid'' s)) =
              payment_history s @
                [\<lparr>pay_license_id = licenseId,
                  pay_amount = lic_amount r,
                  pay_payment_date = iso_date rt (now be),
                  pay_payment_method = None,
                  pay_transaction_id = None,
                  pay_notes = Some ''Payment recorded automatically when status updated to Paid'',
                  pay_created_by = uid\<rparr>])
       \<and> (\<forall>e. insert_error be = Some e \<longrightarrow>
            fst (updateStatus rt be licenseId currentStatus ''Paid'' s)
              = Success ''Status updated and payment history created!''
            \<and> filter (\<lambda>r. lic_id r = licenseId)
                 (licenses (snd (updateStatus rt be licenseId currentStatus ''Paid'' s)))
               = [r\<lparr>lic_status := Some ''Paid'', lic_payment_status := True\<rparr>]
            \<and> payment_history (snd (updateStatus rt be licenseId currentStatus ''Paid'' s))
               = payment_history s
            \<and> console (snd (updateStatus rt be licenseId currentStatus ''Paid'' s))
               = console s @ [''Failed to create payment history: '' @ e])"
proof (intro conjI impI allI)
  assume "insert_error be = None"
  then show "payment_history (snd (updateStatus rt be licenseId currentStatus ''Paid'' s)) =
              payment_history s @
                [\<lparr>pay_license_id = licenseId,
                  pay_amount = lic_amount r,
                  pay_payment_date = iso_date rt (now be),
                  pay_payment_method = None,
                  pay_transaction_id = None,
                  pay_notes = Some ''Payment recorded automatically when status updated to Paid'',
                  pay_created_by = uid\<rparr>]"
    using assms by (simp add: payment_history_updateStatus_paid auto_payment_def or_empty_def)
next
  fix e assume e: "insert_error be = Some e"
  show "fst (updateStatus rt be licenseId currentStatus ''Paid'' s)
          = Success ''Status updated and payment history created!''"
    using assms by (simp add: fst_updateStatus)
  show "filter (\<lambda>r. lic_id r = licenseId)
          (licenses (snd (updateStatus rt be licenseId currentStatus ''Paid'' s)))
        = [r\<lparr>lic_status := Some ''Paid'', lic_payment_status := True\<rparr>]"
    using assms
    by (simp add: licenses_updateStatus filter_update_licenses_eq_id apply_updateData)
  show "payment_history (snd (updateStatus rt be licenseId currentStatus ''Paid'' s))
          = payment_history s"
    using assms e by (simp add: payment_history_updateStatus_paid)
  show "console (snd (updateStatus rt be licenseId currentStatus ''Paid'' s))
          = console s @ [''Failed to create payment history: '' @ e]"
    using assms e by (simp add: console_updateStatus_paid)
qed

theorem paid_transition_records_payment_witness:
  "payment_history (snd (updateStatus sample_runtime sample_backend ''L1'' (Some ''Pending'') ''Paid''
       sample_store)) =
     [\<lparr>pay_license_id = ''L1'', pay_amount = Num 99, pay_payment_date = ''2025-07-09'',
       pay_payment_method = None, pay_transaction_id = None,
       pay_notes = Some ''Payment recorded automatically when status updated to Paid'',
       pay_created_by = ''U1''\<rparr>]
   \<and> fst (updateStatus sample_runtime (sample_backend\<lparr>insert_error := Some ''denied''\<rparr>)
            ''L1'' (Some ''Pending'') ''Paid'' sample_store)
       = Success ''Status updated and payment history created!''
   \<and> filter (\<lambda>r. lic_id r = ''L1'')
         (licenses (snd (updateStatus sample_runtime (sample_backend\<lparr>insert_error := Some ''denied''\<rparr>)
            ''L1'' (Some ''Pending'') ''Paid'' sample_store)))
       = [sample_license\<lparr>lic_status := Some ''Paid'', lic_payment_status := True\<rparr>]
   \<and> payment_history (snd (updateStatus sample_runtime
            (sample_backend\<lparr>insert_error := Some ''denied''\<rparr>) ''L1'' (Some ''Pending'') ''Paid''
            sample_store)) = []
   \<and> console (snd (updateStatus sample_runtime (sample_backend\<lparr>insert_error := Some ''denied''\<rparr>)
            ''L1'' (Some ''Pending'') ''Paid'' sample_store))
       = [''Failed to create payment history: denied'']"
  using paid_transition_records_payment
    [of sample_backend "''U1''" "Some ''Pending''" "''L1''" sample_store sample_license
        sample_runtime]
    paid_transition_records_payment
    [of "sample_backend\<lparr>insert_error := Some ''denied''\<rparr>" "''U1''" "Some ''Pending''" "''L1''"
        sample_store sample_license sample_runtime]
  by (simp add: sample_backend_def sample_store_def sample_license_def sample_runtime_def
      iso_date_def)


text \<open>
  Claim C9.  Adding a payment in the payment history dialog sets the license's status to
  \<open>Paid\<close> and its \<open>payment_status\<close> to true whatever they were before, and appends the
  payment as entered: nothing is compared with the license's amount or with earlier payments.
\<close>

theorem addPayment_forces_paid:
  assumes "user = Some uid"
    and "np_amount newPayment \<noteq> []"
    and "np_payment_date newPayment = Some date"
    and "insert_error be = None"
    and "update_error be = None"
  shows "licenses (snd (addPayment rt be user licenseId newPayment s)) =
           map (\<lambda>r. if lic_id r = licenseId
                     then r\<lparr>lic_status := Some ''Paid'', lic_payment_status := True\<rparr>
                     else r) (licenses s)
       \<and> payment_history (snd (addPayment rt be user licenseId newPayment s)) =
           payment_history s @ [manual_payment rt uid licenseId newPayment date]
       \<and> fst (addPayment rt be user licenseId newPayment s)
           = Some (Success ''Payment record added successfully!'')"
  using assms
  by (simp add: addPayment_def Let_def update_licenses_eq_id_def apply_update_def)

theorem addPayment_forces_paid_witness:
  "map (\<lambda>r. (lic_status r, lic_payment_status r))
     (licenses (snd (addPayment sample_runtime sample_backend (Some ''U1'') ''L1''
        \<lparr>np_amount = ''250'', np_payment_date = Some 1752056100000, np_payment_method = ''UPI'',
         np_transaction_id = [], np_notes = []\<rparr>
        (sample_store\<lparr>licenses :=
           [sample_license\<lparr>lic_status := Some ''Cancelled''\<rparr>,
            sample_license\<lparr>lic_id := ''L2''\<rparr>]\<rparr>))))
     = [(Some ''Paid'', True), (Some ''Pending'', False)]
   \<and> payment_history (snd (addPayment sample_runtime sample_backend (Some ''U1'') ''L1''
        \<lparr>np_amount = ''250'', np_payment_date = Some 1752056100000, np_payment_method = ''UPI'',
         np_transaction_id = [], np_notes = []\<rparr>
        (sample_store\<lparr>licenses :=
           [sample_license\<lparr>lic_status := Some ''Cancelled''\<rparr>,
            sample_license\<lparr>lic_id := ''L2''\<rparr>]\<rparr>)))
     = [\<lparr>pay_license_id = ''L1'', pay_amount = Num 250, pay_payment_date = ''2025-07-09'',
         pay_payment_method = Some ''UPI'', pay_transaction_id = None, pay_notes = None,
         pay_created_by = ''U1''\<rparr>]"
  using addPayment_forces_paid
    [of "Some ''U1''" "''U1''"
        "\<lparr>np_amount = ''250'', np_payment_date = Some 1752056100000, np_payment_method = ''UPI'',
          np_transaction_id = [], np_notes = []\<rparr>"
        1752056100000 sample_backend sample_runtime "''L1''"
        "sample_store\<lparr>licenses :=
           [sample_license\<lparr>lic_status := Some ''Cancelled''\<rparr>,
            sample_license\<lparr>lic_id := ''L2''\<rparr>]\<rparr>"]
  by (simp add: sample_backend_def sample_store_def sample_license_def sample_runtime_def
      iso_date_def manual_payment_def or_null_def)

section \<open>Properties of the CSV export\<close>

lemma first_line_join:
  assumes "CHR 0x0A \<notin> set h"
  shows "first_line (join [CHR 0x0A] (h # rest)) = h"
proof (cases rest)
  case Nil
  with assms show ?thesis
    by (auto simp add: first_line_def)
next
  case (Cons r rs)
  with assms show ?thesis
    by (auto simp add: first_line_def takeWhile_tail)
qed

lemma csv_line_headers:
  "csv_line rt (map Str hs) = join '','' (map double_quoted hs)"
  by (simp add: csv_line_def quoted_def field_text_def double_quoted_def [abs_def] comp_def)

lemma csv_line_csvData:
  "csv_line rt (csvData l) =
     join '','' (map double_quoted
       [lic_product_name l, lic_vendor_name l, lic_category l,
        (case lic_locations l of None \<Rightarrow> [] | Some loc \<Rightarrow> snd loc),
        Number_toString rt (lic_amount l), lic_billing_cycle l, lic_start_date l,
        lic_expiry_date l,
        (case lic_last_renewal_date l of None \<Rightarrow> [] | Some d \<Rightarrow> d),
        (case lic_status l of None \<Rightarrow> [] | Some st \<Rightarrow> st),
        (if lic_payment_status l then ''Paid'' else ''Unpaid''),
        (case lic_notes l of None \<Rightarrow> [] | Some n \<Rightarrow> n)])"
  by (simp add: csv_line_def csvData_def quoted_def field_text_def double_quoted_def or_empty_def
      split: option.splits)

lemma header_line_no_newline:
  "CHR 0x0A \<notin> set (join '','' (map double_quoted headers))"
  by (simp add: headers_def double_quoted_def)

lemma split_on_first:
  "d \<notin> set w \<Longrightarrow> \<exists>ws. split_on d (w @ d # rest) = w # ws"
proof (induction w)
  case Nil
  then show ?case by simp
next
  case (Cons c cs)
  then obtain ws where "split_on d (cs @ d # rest) = cs # ws"
    by auto
  with Cons.prems show ?case by auto
qed

lemma iso_date_split:
  assumes "toISOString rt t = d @ CHR ''T'' # rest" and "CHR ''T'' \<notin> set d"
  shows "iso_date rt t = d"
proof -
  obtain ws where "split_on CHR ''T'' (d @ CHR ''T'' # rest) = d # ws"
    using split_on_first [OF assms(2)] by blast
  with assms(1) show ?thesis
    by (simp add: iso_date_def)
qed

text \<open>
  Claim C6.  For every list of licenses the export's first line is the header of twelve
  columns: Product Name, Vendor, Category, Branch Name, Amount, Billing Cycle, Start Date,
  Expiry Date, Last Renewal Date, Status, Payment Status, Notes.  Every field of the header
  and of every row is put between double quotes exactly as it is, with nothing escaped;
  the Payment Status field is \<open>Paid\<close> for a true \<open>payment_status\<close> and \<open>Unpaid\<close> for a
  false one; and the download is named \<open>licenses_\<close>, the ISO date of the export,
  \<open>.csv\<close>.
\<close>

theorem exportToCSV_format:
  "first_line (csvContent rt ls) =
     join '','' (map double_quoted
       [''Product Name'', ''Vendor'', ''Category'', ''Branch Name'', ''Amount'', ''Billing Cycle'',
        ''Start Date'', ''Expiry Date'', ''Last Renewal Date'', ''Status'', ''Payment Status'',
        ''Notes''])
   \<and> csvContent rt ls =
       join [CHR 0x0A]
         (join '','' (map double_quoted headers) #
          map (\<lambda>l. join '','' (map double_quoted
                 [lic_product_name l, lic_vendor_name l, lic_category l,
                  (case lic_locations l of None \<Rightarrow> [] | Some loc \<Rightarrow> snd loc),
                  Number_toString rt (lic_amount l), lic_billing_cycle l, lic_start_date l,
                  lic_expiry_date l,
                  (case lic_last_renewal_date l of None \<Rightarrow> [] | Some d \<Rightarrow> d),
                  (case lic_status l of None \<Rightarrow> [] | Some st \<Rightarrow> st),
                  (if lic_payment_status l then ''Paid'' else ''Unpaid''),
                  (case lic_notes l of None \<Rightarrow> [] | Some n \<Rightarrow> n)])) ls)
   \<and> fst (exportToCSV rt t ls) = ''licenses_'' @ iso_date rt t @ ''.csv''
   \<and> fst (snd (exportToCSV rt t ls)) = csvContent rt ls
   \<and> (toISOString rt t = d @ CHR ''T'' # rest \<and> CHR ''T'' \<notin> set d \<longrightarrow>
        fst (exportToCSV rt t ls) = ''licenses_'' @ d @ ''.csv'')"
proof -
  have content: "csvContent rt ls =
      join [CHR 0x0A] (join '','' (map double_quoted headers) # map (\<lambda>l. csv_line rt (csvData l)) ls)"
    by (simp add: csvContent_def csv_line_headers comp_def)
  have "first_line (csvContent rt ls) = join '','' (map double_quoted headers)"
    unfolding content using header_line_no_newline by (rule first_line_join)
  then have first: "first_line (csvContent rt ls) =
     join '','' (map double_quoted
       [''Product Name'', ''Vendor'', ''Category'', ''Branch Name'', ''Amount'', ''Billing Cycle'',
        ''Start Date'', ''Expiry Date'', ''Last Renewal Date'', ''Status'', ''Payment Status'',
        ''Notes''])"
    by (simp only: headers_def)
  have name: "fst (exportToCSV rt t ls) = ''licenses_'' @ iso_date rt t @ ''.csv''"
    by (simp add: exportToCSV_def download_name_def)
  have body: "fst (snd (exportToCSV rt t ls)) = csvContent rt ls"
    by (simp add: exportToCSV_def)
  show ?thesis
    using first name body
    by (simp add: content csv_line_csvData iso_date_split)
qed


theorem exportToCSV_format_witness:
  "toISOString sample_runtime 1752056100000 = ''2025-07-09'' @ CHR ''T'' # ''10:15:00.000Z''
   \<and> CHR ''T'' \<notin> set ''2025-07-09''
   \<and> fst (exportToCSV sample_runtime 1752056100000 [sample_license\<lparr>lic_notes := Some ''renew, then pay''\<rparr>])
       = ''licenses_2025-07-09.csv''
   \<and> csvContent sample_runtime [sample_license\<lparr>lic_notes := Some ''renew, then pay''\<rparr>] =
       join '','' (map double_quoted
         [''Product Name'', ''Vendor'', ''Category'', ''Branch Name'', ''Amount'', ''Billing Cycle'',
          ''Start Date'', ''Expiry Date'', ''Last Renewal Date'', ''Status'', ''Payment Status'',
          ''Notes''])
       @ [CHR 0x0A]
       @ join '','' (map double_quoted
         [''Office'', ''Microsoft'', ''Software'', ''Head Office'', ''99'', ''Annual'', ''2024-01-01'',
          ''2024-12-31'', [], ''Pending'', ''Unpaid'', ''renew, then pay''])"
proof -
  note export =
    exportToCSV_format
      [of sample_runtime "[sample_license\<lparr>lic_notes := Some ''renew, then pay''\<rparr>]" 1752056100000
          "''2025-07-09''" "''10:15:00.000Z''"]
  have iso: "toISOString sample_runtime 1752056100000 = ''2025-07-09'' @ CHR ''T'' # ''10:15:00.000Z''"
    by (simp add: sample_runtime_def)
  have no_T: "CHR ''T'' \<notin> set ''2025-07-09''"
    by simp
  have name: "fst (exportToCSV sample_runtime 1752056100000
                [sample_license\<lparr>lic_notes := Some ''renew, then pay''\<rparr>])
              = ''licenses_'' @ ''2025-07-09'' @ ''.csv''"
    using export iso no_T by blast
  have content: "csvContent sample_runtime [sample_license\<lparr>lic_notes := Some ''renew, then pay''\<rparr>] =
       join '','' (map double_quoted
         [''Product Name'', ''Vendor'', ''Category'', ''Branch Name'', ''Amount'', ''Billing Cycle'',
          ''Start Date'', ''Expiry Date'', ''Last Renewal Date'', ''Status'', ''Payment Status'',
          ''Notes''])
       @ [CHR 0x0A]
       @ join '','' (map double_quoted
         [''Office'', ''Microsoft'', ''Software'', ''Head Office'', ''99'', ''Annual'', ''2024-01-01'',
          ''2024-12-31'', [], ''Pending'', ''Unpaid'', ''renew, then pay''])"
    by (simp only: export [THEN conjunct2, THEN conjunct1])
       (simp add: sample_runtime_def sample_license_def headers_def)
  show ?thesis
    using iso no_T name content by simp
qed

section \<open>Properties of the CSV import\<close>

lemmas import_eval =
  handleImport_def parseCSV_def trim_def is_whitespace_def build_row_def
  allErrors_def validateRow_def row_error_def show_nat.simps digit_char_def sample_runtime_def
  truthy_def strip_quotes_def to_string_def isNaN_def enumerate_eq_zip

lemma validateRow_labels:
  "e \<in> set (validateRow rt row i) \<Longrightarrow> \<exists>msg. e = ''Row '' @ show_nat (i + 2) @ '': '' @ msg"
  by (auto simp add: validateRow_def row_error_def split: if_splits)

lemma validateRow_amount:
  "\<not> truthy (row ''amount'') \<or> isNaN (parseFloat rt (to_string (row ''amount''))) \<Longrightarrow>
   row_error i ''Valid amount is required'' \<in> set (validateRow rt row i)"
  by (auto simp add: validateRow_def)

lemma allErrors_nth:
  "allErrors rt rows = concat (map (\<lambda>i. validateRow rt (rows ! i) i) [0..<length rows])"
proof -
  have "map (\<lambda>(index, row). validateRow rt row index) (enumerate 0 rows)
          = map (\<lambda>i. validateRow rt (rows ! i) i) [0..<length rows]"
    by (rule nth_equalityI) (simp_all add: nth_enumerate_eq)
  then show ?thesis
    by (simp add: allErrors_def)
qed

lemma allErrors_Nil_iff:
  "allErrors rt rows = [] \<longleftrightarrow> (\<forall>i<length rows. validateRow rt (rows ! i) i = [])"
  by (auto simp add: allErrors_nth)

text \<open>
  Claim C5, with the row number as the code computes it.  Every data row of an import file
  is validated, and the errors of all rows are collected in row order; every error of the
  data row at 0-based index \<open>i\<close> is labelled \<open>Row i + 2\<close> (the header being row 1, the
  first data row is row 2); a row whose amount is missing or is no number has the error
  \<open>Valid amount is required\<close>; if at least one row has an error, nothing is inserted and
  the whole error list is handed back; and in every case the store receives either nothing
  or every row of the file.
\<close>

theorem import_all_or_nothing:
  assumes "file = Some (Inr csv)" and "user = Some uid"
  shows "allErrors rt (parseCSV csv) =
           concat (map (\<lambda>i. validateRow rt (parseCSV csv ! i) i) [0..<length (parseCSV csv)])
       \<and> (\<forall>i<length (parseCSV csv). \<forall>e\<in>set (validateRow rt (parseCSV csv ! i) i).
             \<exists>msg. e = ''Row '' @ show_nat (i + 2) @ '': '' @ msg)
       \<and> (\<forall>i<length (parseCSV csv).
             \<not> truthy ((parseCSV csv ! i) ''amount'')
             \<or> isNaN (parseFloat rt (to_string ((parseCSV csv ! i) ''amount''))) \<longrightarrow>
             ''Row '' @ show_nat (i + 2) @ '': Valid amount is required''
               \<in> set (validateRow rt (parseCSV csv ! i) i))
       \<and> ((\<exists>i<length (parseCSV csv). validateRow rt (parseCSV csv ! i) i \<noteq> []) \<longrightarrow>
             handleImport rt be file user categories locations
               = (Rejected (allErrors rt (parseCSV csv)), []))
       \<and> (snd (handleImport rt be file user categories locations) = []
          \<or> snd (handleImport rt be file user categories locations)
               = map (to_insert rt uid categories locations) (parseCSV csv))"
proof (intro conjI)
  show "allErrors rt (parseCSV csv) =
           concat (map (\<lambda>i. validateRow rt (parseCSV csv ! i) i) [0..<length (parseCSV csv)])"
    by (rule allErrors_nth)
  show "\<forall>i<length (parseCSV csv). \<forall>e\<in>set (validateRow rt (parseCSV csv ! i) i).
             \<exists>msg. e = ''Row '' @ show_nat (i + 2) @ '': '' @ msg"
    using validateRow_labels by blast
  show "\<forall>i<length (parseCSV csv).
             \<not> truthy ((parseCSV csv ! i) ''amount'')
             \<or> isNaN (parseFloat rt (to_string ((parseCSV csv ! i) ''amount''))) \<longrightarrow>
             ''Row '' @ show_nat (i + 2) @ '': Valid amount is required''
               \<in> set (validateRow rt (parseCSV csv ! i) i)"
    using validateRow_amount [where rt = rt] by (simp add: row_error_def)
  show "(\<exists>i<length (parseCSV csv). validateRow rt (parseCSV csv ! i) i \<noteq> []) \<longrightarrow>
             handleImport rt be file user categories locations
               = (Rejected (allErrors rt (parseCSV csv)), [])"
  proof
    assume "\<exists>i<length (parseCSV csv). validateRow rt (parseCSV csv ! i) i \<noteq> []"
    then have "allErrors rt (parseCSV csv) \<noteq> []"
      by (simp add: allErrors_Nil_iff)
    with assms show "handleImport rt be file user categories locations
               = (Rejected (allErrors rt (parseCSV csv)), [])"
      by (simp add: handleImport_def Let_def)
  qed
  show "snd (handleImport rt be file user categories locations) = []
          \<or> snd (handleImport rt be file user categories locations)
               = map (to_insert rt uid categories locations) (parseCSV csv)"
    using assms by (simp add: handleImport_def Let_def split: option.splits)
qed

text \<open>
  Claim C5 as it is worded takes the label to be the 1-based index of the data row plus 2.
  For a file whose first data row has no amount, the only error is labelled \<open>Row 2\<close>, not
  \<open>Row 3\<close>.
\<close>

theorem import_row_number_counterexample:
  "handleImport sample_runtime sample_backend (Some (Inr sample_csv)) (Some ''U1'') [] []
     = (Rejected [''Row 2: Valid amount is required''], [])
   \<and> handleImport sample_runtime sample_backend (Some (Inr sample_csv)) (Some ''U1'') [] []
     \<noteq> (Rejected [''Row '' @ show_nat (1 + 2) @ '': Valid amount is required''], [])"
  by (simp add: sample_csv_def import_eval)


theorem import_all_or_nothing_witness:
  "handleImport sample_runtime sample_backend (Some (Inr sample_csv2)) (Some ''U1'') [] []
     = (Rejected [''Row 3: Vendor name is required'', ''Row 3: Valid amount is required''], [])"
proof -
  have invalid: "\<exists>i<length (parseCSV sample_csv2).
      validateRow sample_runtime (parseCSV sample_csv2 ! i) i \<noteq> []"
    by (rule exI [of _ 1]) (simp add: sample_csv2_def import_eval)
  have errs: "allErrors sample_runtime (parseCSV sample_csv2)
      = [''Row 3: Vendor name is required'', ''Row 3: Valid amount is required'']"
    by (simp add: sample_csv2_def import_eval)
  have "handleImport sample_runtime sample_backend (Some (Inr sample_csv2)) (Some ''U1'') [] []
      = (Rejected (allErrors sample_runtime (parseCSV sample_csv2)), [])"
    using import_all_or_nothing
      [OF refl refl, where rt = sample_runtime and csv = sample_csv2 and be = sample_backend
        and uid = "''U1''" and categories = "[]" and locations = "[]"] invalid
    by blast
  with errs show ?thesis
    by simp
qed

section \<open>Properties of the notification sweep\<close>


lemma in30Days: "utc_day (t + 30 * 24 * 60 * 60 * 1000) = utc_day t + 30"
proof -
  have "t + 30 * 24 * 60 * 60 * 1000 = t + 30 * ms_per_day"
    by (simp add: ms_per_day_def)
  moreover have "(t + 30 * ms_per_day) div ms_per_day = 30 + t div ms_per_day"
    using ms_per_day_pos by (intro div_mult_self1) simp
  ultimately show ?thesis
    by (simp only: utc_day_def add.commute)
qed

lemma expiring_selected:
  "expiring t (t + 30 * 24 * 60 * 60 * 1000) rows = selected t rows"
  by (simp only: expiring_def selected_def in30Days)

lemma urgency_tiers:
  "(snd (urgency d) = ''URGENT'') = (d \<le> 3)"
  "(snd (urgency d) = ''HIGH'') = (3 < d \<and> d \<le> 7)"
  "(snd (urgency d) = ''MEDIUM'') = (7 < d \<and> d \<le> 15)"
  "(snd (urgency d) = ''LOW'') = (15 < d \<and> d \<le> 30)"
  "fst (urgency d) = (d \<le> 30)"
  by (simp_all add: urgency_def)

lemma selected_days:
  assumes "l \<in> set (selected t rows)"
  shows "daysUntilExpiry t (sw_expiry_date l) = sw_expiry_date l - utc_day t"
    and "0 \<le> daysUntilExpiry t (sw_expiry_date l)"
    and "daysUntilExpiry t (sw_expiry_date l) \<le> 30"
    and "sw_notification_email l \<noteq> None"
  using assms by (simp_all add: selected_def daysUntilExpiry_calendar)

lemma notifiable_selected:
  "l \<in> set (selected (sweep_now env) rows) \<Longrightarrow> notifiable env l = truthy (sw_notification_email l)"
  using selected_days(1,3) [of l "sweep_now env" rows]
  by (simp add: notifiable_def urgency_tiers)

lemma filter_notifiable_selected:
  "filter (notifiable env) (selected (sweep_now env) rows) = with_email (selected (sweep_now env) rows)"
  unfolding with_email_def
  by (rule filter_cong) (simp_all add: notifiable_selected)

lemma notify_step:
  "notify env (l # ls) (ns, out) =
     (if notifiable env l
      then notify env ls (ns @ [outcome_record env (length out) l], out @ [alert_for env l])
      else notify env ls (ns, out))"
  by (simp add: notifiable_def outcome_record_def alert_for_def Let_def
      split: prod.splits send_outcome.splits)

lemma notify_eq:
  "notify env ls (ns, out) =
     (ns @ map (\<lambda>(k, l). outcome_record env k l) (enumerate (length out) (filter (notifiable env) ls)),
      out @ map (alert_for env) (filter (notifiable env) ls))"
proof (induction ls arbitrary: ns out)
  case Nil
  show ?case by simp
next
  case (Cons l ls)
  show ?case
    by (simp only: notify_step Cons.IH) simp
qed

lemma serve_ok:
  assumes "method \<noteq> ''OPTIONS''" and "query_error env = None"
  shows "serve env method db =
     (\<lparr>resp_status = 200,
       resp_body =
         Summary True (length (selected (sweep_now env) (db_licenses db)))
           (length (filter (\<lambda>n. n_status n = ''sent'')
              (map (\<lambda>(k, l). outcome_record env k l)
                 (enumerate 0 (with_email (selected (sweep_now env) (db_licenses db)))))))
           (length (filter (\<lambda>n. n_status n = ''failed'')
              (map (\<lambda>(k, l). outcome_record env k l)
                 (enumerate 0 (with_email (selected (sweep_now env) (db_licenses db)))))))
           (map (\<lambda>(k, l). outcome_record env k l)
              (enumerate 0 (with_email (selected (sweep_now env) (db_licenses db)))))\<rparr>,
      map (alert_for env) (with_email (selected (sweep_now env) (db_licenses db))))"
  using assms
  unfolding serve_def Let_def expiring_selected notify_eq filter_notifiable_selected
  by simp

lemma serve_query_error:
  assumes "method \<noteq> ''OPTIONS''" and "query_error env = Some e"
  shows "serve env method db = (\<lparr>resp_status = 500, resp_body = Failure e False\<rparr>, [])"
  using assms by (simp add: serve_def Let_def)


lemma outcome_record_status:
  "n_status (outcome_record env k l) = ''sent'' \<or> n_status (outcome_record env k l) = ''failed''"
  by (simp add: outcome_record_def Let_def split: send_outcome.splits)

lemma outcome_record_email:
  "n_email (outcome_record env k l) = sw_notification_email l"
  by (simp add: outcome_record_def Let_def split: send_outcome.splits)

lemma outcome_record_Thrown:
  "send env k (alert_for env l) = Thrown msg \<Longrightarrow>
   n_status (outcome_record env k l) = ''failed'' \<and> n_error (outcome_record env k l) = Some msg"
  by (simp add: outcome_record_def alert_for_def Let_def)

lemma outcome_record_Returned:
  "send env k (alert_for env l) = Returned i e \<Longrightarrow>
   n_status (outcome_record env k l) = ''sent'' \<and> n_email_id (outcome_record env k l) = i
   \<and> n_error (outcome_record env k l) = None"
  by (simp add: outcome_record_def alert_for_def Let_def)

lemma details_members:
  assumes "d \<in> set (map (\<lambda>(k, l). outcome_record env k l) (enumerate n ls))"
  shows "\<exists>k l. l \<in> set ls \<and> d = outcome_record env k l"
proof -
  from assms obtain k l where "(k, l) \<in> set (enumerate n ls)" and d: "d = outcome_record env k l"
    by auto
  then have "l \<in> set ls"
    by (auto simp add: in_set_enumerate_eq)
  with d show ?thesis by blast
qed

lemma sent_plus_failed:
  "\<forall>x\<in>set xs. n_status x = ''sent'' \<or> n_status x = ''failed'' \<Longrightarrow>
   length (filter (\<lambda>n. n_status n = ''sent'') xs) + length (filter (\<lambda>n. n_status n = ''failed'') xs)
     = length xs"
  by (induction xs) auto

lemma selected_payment_status:
  "selected t (map (\<lambda>l. l\<lparr>sw_payment_status := paid l\<rparr>) rows)
     = map (\<lambda>l. l\<lparr>sw_payment_status := paid l\<rparr>) (selected t rows)"
  by (simp add: selected_def filter_map comp_def)

lemma notify_payment_status:
  "notify env (map (\<lambda>l. l\<lparr>sw_payment_status := paid l\<rparr>) ls) (ns, out) = notify env ls (ns, out)"
proof (induction ls arbitrary: ns out)
  case Nil
  show ?case by simp
next
  case (Cons l ls)
  have "notifiable env (l\<lparr>sw_payment_status := paid l\<rparr>) = notifiable env l"
    and "outcome_record env (length out) (l\<lparr>sw_payment_status := paid l\<rparr>)
           = outcome_record env (length out) l"
    and "alert_for env (l\<lparr>sw_payment_status := paid l\<rparr>) = alert_for env l"
    by (simp_all add: notifiable_def outcome_record_def alert_for_def alert_def Let_def
        split: send_outcome.splits)
  then show ?case
    by (simp only: list.map notify_step Cons.IH)
qed

lemma serve_payment_status:
  "serve env method (db\<lparr>db_licenses := map (\<lambda>l. l\<lparr>sw_payment_status := paid l\<rparr>) (db_licenses db)\<rparr>)
     = serve env method db"
  unfolding serve_def Let_def expiring_selected
  by (simp add: selected_payment_status notify_payment_status split: option.splits)

lemma serve_notification_settings:
  "serve env method (db\<lparr>db_notification_settings := prefs\<rparr>) = serve env method db"
  by (simp add: serve_def Let_def split: option.splits)

text \<open>
  Claim C3.  A sweep whose query succeeds looks at exactly the licenses whose expiry date
  lies from today to thirty days later, both included, and whose notification email is not
  null.  Every such license has between 0 and 30 days left, which is the difference of the
  calendar days, and is given a tier: \<open>URGENT\<close> up to 3 days, \<open>HIGH\<close> from 4 to 7,
  \<open>MEDIUM\<close> from 8 to 15, \<open>LOW\<close> from 16 to 30, so that no number of days has two
  tiers.  Neither the licenses' \<open>payment_status\<close> nor the stored notification settings
  change anything in what the sweep answers or sends.
\<close>

theorem sweep_selects_and_classifies:
  assumes "method \<noteq> ''OPTIONS''" and "query_error env = None"
  shows "expiring (sweep_now env) (sweep_now env + 30 * 24 * 60 * 60 * 1000) (db_licenses db)
           = selected (sweep_now env) (db_licenses db)
       \<and> (\<exists>sent failed.
             resp_body (fst (serve env method db)) =
               Summary True (length (selected (sweep_now env) (db_licenses db))) sent failed
                 (map (\<lambda>(k, l). outcome_record env k l)
                    (enumerate 0 (with_email (selected (sweep_now env) (db_licenses db))))))
       \<and> (\<forall>l\<in>set (selected (sweep_now env) (db_licenses db)).
             daysUntilExpiry (sweep_now env) (sw_expiry_date l)
               = sw_expiry_date l - utc_day (sweep_now env)
             \<and> 0 \<le> daysUntilExpiry (sweep_now env) (sw_expiry_date l)
             \<and> daysUntilExpiry (sweep_now env) (sw_expiry_date l) \<le> 30
             \<and> fst (urgency (daysUntilExpiry (sweep_now env) (sw_expiry_date l))))
       \<and> (snd (urgency d) = ''URGENT'') = (d \<le> 3)
       \<and> (snd (urgency d) = ''HIGH'') = (3 < d \<and> d \<le> 7)
       \<and> (snd (urgency d) = ''MEDIUM'') = (7 < d \<and> d \<le> 15)
       \<and> (snd (urgency d) = ''LOW'') = (15 < d \<and> d \<le> 30)
       \<and> serve env method
            (db\<lparr>db_licenses := map (\<lambda>l. l\<lparr>sw_payment_status := paid l\<rparr>) (db_licenses db)\<rparr>)
           = serve env method db
       \<and> serve env method (db\<lparr>db_notification_settings := prefs\<rparr>) = serve env method db"
proof -
  have "\<forall>l\<in>set (selected (sweep_now env) (db_licenses db)).
             daysUntilExpiry (sweep_now env) (sw_expiry_date l)
               = sw_expiry_date l - utc_day (sweep_now env)
             \<and> 0 \<le> daysUntilExpiry (sweep_now env) (sw_expiry_date l)
             \<and> daysUntilExpiry (sweep_now env) (sw_expiry_date l) \<le> 30
             \<and> fst (urgency (daysUntilExpiry (sweep_now env) (sw_expiry_date l)))"
    using selected_days by (simp add: urgency_tiers(5))
  moreover have "\<exists>sent failed.
             resp_body (fst (serve env method db)) =
               Summary True (length (selected (sweep_now env) (db_licenses db))) sent failed
                 (map (\<lambda>(k, l). outcome_record env k l)
                    (enumerate 0 (with_email (selected (sweep_now env) (db_licenses db)))))"
    by (simp add: serve_ok [OF assms])
  ultimately show ?thesis
    by (simp only: expiring_selected urgency_tiers serve_payment_status
        serve_notification_settings simp_thms)
qed

text \<open>
  What holds of the sends of a sweep (any request that is not a pre-flight).  A mail is
  handed to the provider for every license looked at that has a non-empty email, whatever
  the provider answered to the earlier ones.  A request on which the provider throws is
  recorded with status \<open>failed\<close> and the error's message; a request on which it returns
  is recorded with status \<open>sent\<close>, whether or not the answer carries an error.  If the
  license query succeeds the response has status 200 and a body with \<open>success\<close> true, the
  three counts and the details; the status is 500 exactly when the query fails, and then the
  body is \<open>success\<close> false with the error and no mail has been handed to the provider.
\<close>

lemma sweep_sends:
  assumes "method \<noteq> ''OPTIONS''"
  shows "(query_error env = None \<longrightarrow>
            resp_status (fst (serve env method db)) = 200
            \<and> (\<exists>checked sent failed.
                  resp_body (fst (serve env method db)) =
                    Summary True checked sent failed
                      (map (\<lambda>(k, l). outcome_record env k l)
                         (enumerate 0 (with_email (selected (sweep_now env) (db_licenses db))))))
            \<and> snd (serve env method db)
                = map (alert_for env) (with_email (selected (sweep_now env) (db_licenses db)))
            \<and> snd (serve (env\<lparr>send := other\<rparr>) method db) = snd (serve env method db))
       \<and> (\<forall>k l msg. send env k (alert_for env l) = Thrown msg \<longrightarrow>
             n_status (outcome_record env k l) = ''failed''
             \<and> n_error (outcome_record env k l) = Some msg)
       \<and> (\<forall>k l i e. send env k (alert_for env l) = Returned i e \<longrightarrow>
             n_status (outcome_record env k l) = ''sent''
             \<and> n_email_id (outcome_record env k l) = i
             \<and> n_error (outcome_record env k l) = None)
       \<and> (resp_status (fst (serve env method db)) = 500) = (query_error env \<noteq> None)
       \<and> (\<forall>e. query_error env = Some e \<longrightarrow>
             serve env method db = (\<lparr>resp_status = 500, resp_body = Failure e False\<rparr>, []))"
proof -
  have ok: "query_error env = None \<longrightarrow>
            resp_status (fst (serve env method db)) = 200
            \<and> (\<exists>checked sent failed.
                  resp_body (fst (serve env method db)) =
                    Summary True checked sent failed
                      (map (\<lambda>(k, l). outcome_record env k l)
                         (enumerate 0 (with_email (selected (sweep_now env) (db_licenses db))))))
            \<and> snd (serve env method db)
                = map (alert_for env) (with_email (selected (sweep_now env) (db_licenses db)))
            \<and> snd (serve (env\<lparr>send := other\<rparr>) method db) = snd (serve env method db)"
  proof
    assume q: "query_error env = None"
    have "alert_for (env\<lparr>send := other\<rparr>) = alert_for env"
      by (rule ext) (simp add: alert_for_def)
    then have "snd (serve (env\<lparr>send := other\<rparr>) method db) = snd (serve env method db)"
      using assms q by (simp add: serve_ok)
    then show "resp_status (fst (serve env method db)) = 200
            \<and> (\<exists>checked sent failed.
                  resp_body (fst (serve env method db)) =
                    Summary True checked sent failed
                      (map (\<lambda>(k, l). outcome_record env k l)
                         (enumerate 0 (with_email (selected (sweep_now env) (db_licenses db))))))
            \<and> snd (serve env method db)
                = map (alert_for env) (with_email (selected (sweep_now env) (db_licenses db)))
            \<and> snd (serve (env\<lparr>send := other\<rparr>) method db) = snd (serve env method db)"
      by (simp add: serve_ok [OF assms q])
  qed
  have status: "(resp_status (fst (serve env method db)) = 500) = (query_error env \<noteq> None)"
  proof (cases "query_error env")
    case None
    then show ?thesis by (simp add: serve_ok [OF assms])
  next
    case (Some e)
    then show ?thesis by (simp add: serve_query_error [OF assms])
  qed
  have err: "\<forall>e. query_error env = Some e \<longrightarrow>
             serve env method db = (\<lparr>resp_status = 500, resp_body = Failure e False\<rparr>, [])"
    using serve_query_error [OF assms] by blast
  show ?thesis
    using ok status err outcome_record_Thrown outcome_record_Returned by blast
qed

text \<open>
  Claim C10.  In every response of the sweep with status 200 and a summary body, the
  numbers of sent and of failed notifications add up to the length of the details, every
  detail has status \<open>sent\<close> or \<open>failed\<close> and an email that is not null, and the number
  of licenses checked is at least the length of the details.
\<close>

theorem sweep_summary_counts:
  assumes "fst (serve env method db) =
             \<lparr>resp_status = 200, resp_body = Summary ok checked sent failed details\<rparr>"
  shows "sent + failed = length details
       \<and> (\<forall>d\<in>set details. (n_status d = ''sent'' \<or> n_status d = ''failed'') \<and> n_email d \<noteq> None)
       \<and> length details \<le> checked"
proof -
  have m: "method \<noteq> ''OPTIONS''"
    using assms by (auto simp add: serve_def)
  have q: "query_error env = None"
  proof (cases "query_error env")
    case None
    then show ?thesis .
  next
    case (Some e)
    with assms m show ?thesis by (simp add: serve_query_error)
  qed
  let ?ls = "with_email (selected (sweep_now env) (db_licenses db))"
  from assms have details: "details = map (\<lambda>(k, l). outcome_record env k l) (enumerate 0 ?ls)"
    and sent: "sent = length (filter (\<lambda>n. n_status n = ''sent'') details)"
    and failed: "failed = length (filter (\<lambda>n. n_status n = ''failed'') details)"
    and checked: "checked = length (selected (sweep_now env) (db_licenses db))"
    by (auto simp add: serve_ok [OF m q])
  have each: "\<forall>d\<in>set details. (n_status d = ''sent'' \<or> n_status d = ''failed'') \<and> n_email d \<noteq> None"
  proof
    fix d assume "d \<in> set details"
    then obtain k l where l: "l \<in> set ?ls" and d: "d = outcome_record env k l"
      unfolding details using details_members by blast
    from l have "sw_notification_email l \<noteq> None"
      by (auto simp add: with_email_def truthy_def split: option.splits)
    with d show "(n_status d = ''sent'' \<or> n_status d = ''failed'') \<and> n_email d \<noteq> None"
      by (simp add: outcome_record_status outcome_record_email)
  qed
  then have "sent + failed = length details"
    unfolding sent failed by (intro sent_plus_failed) blast
  moreover have "length details \<le> checked"
    by (simp add: details checked with_email_def)
  ultimately show ?thesis
    using each by blast
qed


lemmas sweep_eval =
  selected_def with_email_def truthy_def utc_day_def ms_per_day_def daysUntilExpiry_calendar
  outcome_record_def urgency_def alert_def alert_for_def to_string_def show_int_def
  show_nat.simps digit_char_def sample_database_def sample_License_def sample_sweep_env_def
  sample_details_def sample_rejecting_env_def sample_single_def Let_def

lemma sample_sweep:
  "serve sample_sweep_env ''POST'' sample_database =
     (\<lparr>resp_status = 200, resp_body = Summary True 4 2 1 sample_details\<rparr>,
      [\<lparr>mail_from = ''License Manager <notifications@resend.dev>'', mail_to = [''a@example.com''],
        mail_subject = ''License Expiry Alert: Office - 2 days remaining''\<rparr>,
       \<lparr>mail_from = ''License Manager <notifications@resend.dev>'', mail_to = [''b@example.com''],
        mail_subject = ''License Expiry Alert: Office - 10 days remaining''\<rparr>,
       \<lparr>mail_from = ''License Manager <notifications@resend.dev>'', mail_to = [''f@example.com''],
        mail_subject = ''License Expiry Alert: Office - 30 days remaining''\<rparr>])"
proof -
  have m: "''POST'' \<noteq> ''OPTIONS''" and q: "query_error sample_sweep_env = None"
    by (simp_all add: sample_sweep_env_def)
  show ?thesis
    unfolding serve_ok [OF m q] by (simp add: sweep_eval)
qed

theorem sweep_selects_and_classifies_witness:
  "''POST'' \<noteq> ''OPTIONS'' \<and> query_error sample_sweep_env = None
   \<and> map sw_id (expiring (sweep_now sample_sweep_env)
                  (sweep_now sample_sweep_env + 30 * 24 * 60 * 60 * 1000)
                  (db_licenses sample_database)) = [''A'', ''B'', ''C'', ''F'']
   \<and> resp_body (fst (serve sample_sweep_env ''POST'' sample_database))
       = Summary True 4 2 1 sample_details
   \<and> map n_urgency sample_details = [''URGENT'', ''MEDIUM'', ''LOW'']
   \<and> serve sample_sweep_env ''POST''
        (sample_database\<lparr>db_licenses :=
           map (\<lambda>l. l\<lparr>sw_payment_status := True\<rparr>) (db_licenses sample_database)\<rparr>)
      = serve sample_sweep_env ''POST'' sample_database
   \<and> serve sample_sweep_env ''POST'' (sample_database\<lparr>db_notification_settings := []\<rparr>)
      = serve sample_sweep_env ''POST'' sample_database"
proof -
  have m: "''POST'' \<noteq> ''OPTIONS''"
    by simp
  have q: "query_error sample_sweep_env = None"
    by (simp add: sample_sweep_env_def)
  note sweep =
    sweep_selects_and_classifies
      [OF m q, where db = sample_database and paid = "\<lambda>l. True" and prefs = "[]"]
  have sel: "map sw_id (expiring (sweep_now sample_sweep_env)
                  (sweep_now sample_sweep_env + 30 * 24 * 60 * 60 * 1000)
                  (db_licenses sample_database)) = [''A'', ''B'', ''C'', ''F'']"
    by (simp only: sweep [THEN conjunct1]) (simp add: sweep_eval)
  have body: "resp_body (fst (serve sample_sweep_env ''POST'' sample_database))
       = Summary True 4 2 1 sample_details"
    by (simp add: sample_sweep)
  have tiers: "map n_urgency sample_details = [''URGENT'', ''MEDIUM'', ''LOW'']"
    by (simp add: sample_details_def)
  show ?thesis
    using m q sel body tiers sweep by blast
qed

lemma sweep_sends_sample:
  "''POST'' \<noteq> ''OPTIONS''
   \<and> resp_status (fst (serve sample_sweep_env ''POST'' sample_database)) = 200
   \<and> map mail_to (snd (serve sample_sweep_env ''POST'' sample_database))
       = [[''a@example.com''], [''b@example.com''], [''f@example.com'']]
   \<and> send sample_sweep_env 1
        (alert_for sample_sweep_env (sample_License ''B'' 20288 (Some ''b@example.com'') False))
       = Thrown ''rate limit exceeded''
   \<and> n_status (outcome_record sample_sweep_env 1
        (sample_License ''B'' 20288 (Some ''b@example.com'') False)) = ''failed''
   \<and> n_error (outcome_record sample_sweep_env 1
        (sample_License ''B'' 20288 (Some ''b@example.com'') False)) = Some ''rate limit exceeded''
   \<and> query_error (sample_sweep_env\<lparr>query_error := Some ''timeout''\<rparr>) = Some ''timeout''
   \<and> serve (sample_sweep_env\<lparr>query_error := Some ''timeout''\<rparr>) ''POST'' sample_database
       = (\<lparr>resp_status = 500, resp_body = Failure ''timeout'' False\<rparr>, [])"
proof -
  have m: "''POST'' \<noteq> ''OPTIONS''"
    by simp
  note ok = sweep_sends [OF m, where env = sample_sweep_env and db = sample_database]
  note bad =
    sweep_sends
      [OF m, where env = "sample_sweep_env\<lparr>query_error := Some ''timeout''\<rparr>"
        and db = sample_database]
  have q: "query_error sample_sweep_env = None"
    by (simp add: sample_sweep_env_def)
  have thrown: "send sample_sweep_env 1
        (alert_for sample_sweep_env (sample_License ''B'' 20288 (Some ''b@example.com'') False))
       = Thrown ''rate limit exceeded''"
    by (simp add: sample_sweep_env_def)
  have status: "resp_status (fst (serve sample_sweep_env ''POST'' sample_database)) = 200"
    using ok q by blast
  have "snd (serve sample_sweep_env ''POST'' sample_database) =
      map (alert_for sample_sweep_env)
        (with_email (selected (sweep_now sample_sweep_env) (db_licenses sample_database)))"
    using ok q by blast
  then have mails: "map mail_to (snd (serve sample_sweep_env ''POST'' sample_database))
       = [[''a@example.com''], [''b@example.com''], [''f@example.com'']]"
    by (simp add: sweep_eval)
  have failed: "n_status (outcome_record sample_sweep_env 1
        (sample_License ''B'' 20288 (Some ''b@example.com'') False)) = ''failed''
      \<and> n_error (outcome_record sample_sweep_env 1
        (sample_License ''B'' 20288 (Some ''b@example.com'') False)) = Some ''rate limit exceeded''"
    using ok thrown by blast
  have q': "query_error (sample_sweep_env\<lparr>query_error := Some ''timeout''\<rparr>) = Some ''timeout''"
    by simp
  have "serve (sample_sweep_env\<lparr>query_error := Some ''timeout''\<rparr>) ''POST'' sample_database
       = (\<lparr>resp_status = 500, resp_body = Failure ''timeout'' False\<rparr>, [])"
    using bad q' by blast
  with m status mails thrown failed q' show ?thesis
    by blast
qed

theorem sweep_summary_counts_witness:
  "fst (serve sample_sweep_env ''POST'' sample_database)
     = \<lparr>resp_status = 200, resp_body = Summary True 4 2 1 sample_details\<rparr>
   \<and> (2::nat) + 1 = length sample_details
   \<and> length sample_details \<le> 4
   \<and> map n_status sample_details = [''sent'', ''failed'', ''sent'']
   \<and> None \<notin> set (map n_email sample_details)"
proof -
  have resp: "fst (serve sample_sweep_env ''POST'' sample_database)
     = \<lparr>resp_status = 200, resp_body = Summary True 4 2 1 sample_details\<rparr>"
    by (simp add: sample_sweep)
  note counts = sweep_summary_counts [OF resp]
  have "map n_status sample_details = [''sent'', ''failed'', ''sent'']"
    by (simp add: sample_details_def)
  moreover have "None \<notin> set (map n_email sample_details)"
    using counts by auto
  ultimately show ?thesis
    using resp counts by simp
qed

text \<open>
  Claim C4 says that a send that fails is recorded as a detail with status \<open>failed\<close> and
  the error's message.  The function does so only for a send on which the provider throws.
  In a sweep over one license that expires in two days, where the provider rejects the
  request by returning an answer without data and with an error, the response has status
  200, the one detail has status \<open>sent\<close> with neither an id nor an error, and the send is
  counted among the notifications sent, none among the failed.
\<close>

theorem sweep_rejected_send_recorded_sent:
  "send sample_rejecting_env 0
     (alert_for sample_rejecting_env (sample_License ''A'' 20280 (Some ''a@example.com'') False))
     = Returned None (Some ''Too many requests'')
   \<and> serve sample_rejecting_env ''POST'' sample_single =
       (\<lparr>resp_status = 200,
         resp_body =
           Summary True 1 1 0
             [\<lparr>n_license_id = ''A'', n_email = Some ''a@example.com'', n_days_until_expiry = 2,
               n_urgency = ''URGENT'', n_status = ''sent'', n_email_id = None,
               n_error = None\<rparr>]\<rparr>,
        [\<lparr>mail_from = ''License Manager <notifications@resend.dev>'',
          mail_to = [''a@example.com''],
          mail_subject = ''License Expiry Alert: Office - 2 days remaining''\<rparr>])"
proof -
  have m: "''POST'' \<noteq> ''OPTIONS''" and q: "query_error sample_rejecting_env = None"
    by (simp_all add: sample_rejecting_env_def)
  have "serve sample_rejecting_env ''POST'' sample_single =
       (\<lparr>resp_status = 200,
         resp_body =
           Summary True 1 1 0
             [\<lparr>n_license_id = ''A'', n_email = Some ''a@example.com'', n_days_until_expiry = 2,
               n_urgency = ''URGENT'', n_status = ''sent'', n_email_id = None,
               n_error = None\<rparr>]\<rparr>,
        [\<lparr>mail_from = ''License Manager <notifications@resend.dev>'',
          mail_to = [''a@example.com''],
          mail_subject = ''License Expiry Alert: Office - 2 days remaining''\<rparr>])"
    unfolding serve_ok [OF m q] by (simp add: sweep_eval)
  then show ?thesis
    by (simp add: sample_rejecting_env_def)
qed

end
